theory Spec2Isabelle
  imports Main
begin

section \<open>Session persistence manager (pkg/sessions/persistence/manager.go)\<close>

text \<open>
  The Manager coordinates three collaborators: the ticket (decode, mint, encrypt and
  persist, cookie write and clear), the Store and the clock. Its three operations
  \<open>Save\<close>, \<open>Load\<close> and \<open>Clear\<close> are embedded below, branch for branch. Go's
  \<open>error\<close> results are values: \<open>error option\<close> for a function returning \<open>error\<close>
  (\<open>None\<close> is \<open>nil\<close>), \<open>error + 'a\<close> for a function returning \<open>('a, error)\<close>.
  A pointer to a session that is mutated in place becomes a session that is returned
  updated.
\<close>

subsection \<open>Go errors\<close>

text \<open>
  An error value is the sentinel \<open>http.ErrNoCookie\<close>, an error that carries only a
  text (\<open>errors.New\<close>, or \<open>fmt.Errorf\<close> with the verb \<open>%v\<close>), or an error with a
  text that unwraps to an inner error (\<open>fmt.Errorf\<close> with \<open>%w\<close>).
\<close>

datatype error = ErrNoCookie | ErrorString string | WrapError string error

text \<open>\<open>err.Error()\<close>: the text of an error.\<close>

fun Error :: "error \<Rightarrow> string" where
  "Error ErrNoCookie = ''http: named cookie not present''"
| "Error (ErrorString msg) = msg"
| "Error (WrapError msg inner) = msg"

text \<open>
  \<open>errors.Is(err, target)\<close>: \<open>err\<close> or an error on its unwrap chain is the target.
\<close>

fun errors_Is :: "error \<Rightarrow> error \<Rightarrow> bool" where
  "errors_Is ErrNoCookie target = (ErrNoCookie = target)"
| "errors_Is (ErrorString msg) target = (ErrorString msg = target)"
| "errors_Is (WrapError msg inner) target =
     (WrapError msg inner = target \<or> errors_Is inner target)"

text \<open>
  \<open>fmt.Errorf(prefix + "%v", err)\<close>: a new error whose text is the prefix followed by
  the text of \<open>err\<close>; the verb \<open>%v\<close> keeps no link to \<open>err\<close>.
\<close>

definition Errorf :: "string \<Rightarrow> error \<Rightarrow> error" where
  "Errorf prefix err = ErrorString (prefix @ Error err)"

subsection \<open>Data\<close>

type_synonym bytes = string

text \<open>
  A \<open>time.Time\<close> as seconds and nanoseconds since January 1, year 1, 00:00:00 UTC;
  \<open>IsZero\<close> reports that instant.
\<close>

record Time =
  sec :: int
  nsec :: int

definition IsZero :: "Time \<Rightarrow> bool" where
  "IsZero t = (sec t = 0 \<and> nsec t = 0)"

text \<open>
  Modelled from the spec: the declaration of \<open>sessions.SessionState\<close> is not part of
  the source at hand. The spec gives it a creation timestamp and a payload that the
  persistence layer does not interpret; \<open>CreatedAt\<close> is a pointer in \<open>Manager.Save\<close>
  (\<open>None\<close> is \<open>nil\<close>).
\<close>

record SessionState =
  CreatedAt :: "Time option"
  payload :: bytes

text \<open>
  Modelled from the spec: the declaration of \<open>ticket\<close> is not part of the source at
  hand. A ticket is an identifier, which is the Store key, and a secret. The
  \<open>cookieBuilder\<close> field is the Manager's own builder in every ticket, and is part of
  the collaborators below.
\<close>

record ticket =
  ticket_id :: string
  secret :: bytes

subsection \<open>Calls to collaborators\<close>

text \<open>
  One event for every call that returns, with its arguments and its result, in the
  order of return. The trace is how a theorem says that a collaborator was called,
  or was not.
\<close>

datatype event =
    DecodeTicket "error + ticket"
  | NewTicket "error + ticket"
  | SaveSession ticket "error option"
  | StoreSave string bytes int "error option"
  | SetCookie ticket "error option"
  | LoadSession ticket "error + SessionState"
  | StoreLoad string "error + bytes"
  | ClearCookie ticket "error option"
  | ClearSession ticket "error option"
  | StoreClear string "error option"

text \<open>
  The collaborators, as parameters: the source at hand holds \<open>manager.go\<close> only.
  \<open>'w\<close> is everything outside the Manager (the Store's contents, the response being
  written, the clock, the random source); \<open>'q\<close> is the request, which also stands for
  its context \<open>req.Context()\<close>. Each collaborator reads and updates \<open>'w\<close> and may
  fail. The response writer \<open>rw\<close> is part of \<open>'w\<close>.
\<close>

record ('w, 'q) env =
  time_Now :: "'w \<Rightarrow> Time"
  decodeTicketFromRequest :: "'q \<Rightarrow> 'w \<Rightarrow> (error + ticket) \<times> 'w"
  newTicket :: "'w \<Rightarrow> (error + ticket) \<times> 'w"
  encodeSession :: "ticket \<Rightarrow> SessionState \<Rightarrow> 'w \<Rightarrow> (error + bytes) \<times> 'w"
  decodeSession :: "ticket \<Rightarrow> bytes \<Rightarrow> 'w \<Rightarrow> (error + SessionState) \<times> 'w"
  expire :: "SessionState \<Rightarrow> int"
  setCookie :: "ticket \<Rightarrow> 'q \<Rightarrow> SessionState \<Rightarrow> 'w \<Rightarrow> error option \<times> 'w"
  clearCookie :: "ticket \<Rightarrow> 'q \<Rightarrow> 'w \<Rightarrow> error option \<times> 'w"
  Store_Save :: "'q \<Rightarrow> string \<Rightarrow> bytes \<Rightarrow> int \<Rightarrow> 'w \<Rightarrow> error option \<times> 'w"
  Store_Load :: "'q \<Rightarrow> string \<Rightarrow> 'w \<Rightarrow> (error + bytes) \<times> 'w"
  Store_Clear :: "'q \<Rightarrow> string \<Rightarrow> 'w \<Rightarrow> error option \<times> 'w"

text \<open>The state of a run: the outside world and the trace of calls so far.\<close>

type_synonym 'w st = "'w \<times> event list"

text \<open>\<open>call ev f\<close> runs the collaborator \<open>f\<close> on the world and records its result.\<close>

definition call :: "('r \<Rightarrow> event) \<Rightarrow> ('w \<Rightarrow> 'r \<times> 'w) \<Rightarrow> 'w st \<Rightarrow> 'r \<times> 'w st" where
  "call ev f st = (case f (fst st) of (r, w') \<Rightarrow> (r, (w', snd st @ [ev r])))"

text \<open>
  \<open>returning ev f\<close> runs a ticket method \<open>f\<close>, which may itself call the Store, and
  records its result when it returns.
\<close>

definition returning :: "('r \<Rightarrow> event) \<Rightarrow> ('w st \<Rightarrow> 'r \<times> 'w st) \<Rightarrow> 'w st \<Rightarrow> 'r \<times> 'w st" where
  "returning ev f st = (case f st of (r, (w', tr)) \<Rightarrow> (r, (w', tr @ [ev r])))"

subsection \<open>Ticket methods that take a Store callback\<close>

text \<open>
  Modelled from the spec: \<open>ticket.saveSession\<close> is not part of the source at hand.
  It serialises and encrypts the session under the ticket, computes the TTL from the
  session's expiration policy and invokes the writer on the ticket's id, the
  ciphertext and the TTL. It fails if serialisation or encryption fails, or if the
  write fails; the writer's error is returned as it is.
\<close>

definition saveSession ::
  "('w, 'q) env \<Rightarrow> ticket \<Rightarrow> SessionState \<Rightarrow>
   (string \<Rightarrow> bytes \<Rightarrow> int \<Rightarrow> 'w st \<Rightarrow> error option \<times> 'w st) \<Rightarrow>
   'w st \<Rightarrow> error option \<times> 'w st" where
  "saveSession m t s saver st =
     (case encodeSession m t s (fst st) of
        (Inl err, w') \<Rightarrow> (Some err, (w', snd st))
      | (Inr ciphertext, w') \<Rightarrow> saver (ticket_id t) ciphertext (expire m s) (w', snd st))"

text \<open>
  Modelled from the spec: \<open>ticket.loadSession\<close> is not part of the source at hand.
  It invokes the reader on the ticket's id, then decrypts and deserialises what the
  reader returned; a failure of either step is the result.
\<close>

definition loadSession ::
  "('w, 'q) env \<Rightarrow> ticket \<Rightarrow> (string \<Rightarrow> 'w st \<Rightarrow> (error + bytes) \<times> 'w st) \<Rightarrow>
   'w st \<Rightarrow> (error + SessionState) \<times> 'w st" where
  "loadSession m t loader st =
     (case loader (ticket_id t) st of
        (Inl err, st') \<Rightarrow> (Inl err, st')
      | (Inr ciphertext, st') \<Rightarrow>
          (case decodeSession m t ciphertext (fst st') of
             (r, w') \<Rightarrow> (r, (w', snd st'))))"

text \<open>
  Modelled from the spec: \<open>ticket.clearSession\<close> is not part of the source at hand.
  It invokes the deleter on the ticket's id and returns the deleter's result.
\<close>

definition clearSession ::
  "ticket \<Rightarrow> (string \<Rightarrow> 'w st \<Rightarrow> error option \<times> 'w st) \<Rightarrow>
   'w st \<Rightarrow> error option \<times> 'w st" where
  "clearSession t clearer st = clearer (ticket_id t) st"

subsection \<open>Manager.Save\<close>

text \<open>
  Lines 33 to 36 stamp \<open>CreatedAt\<close> when it is \<open>nil\<close> or the zero time. Lines 38 to 44
  decode the ticket of the request, and mint one when decoding fails. Lines 46 to 51
  persist the session through the Store. Line 53 writes the cookie. The result is
  the returned error together with the session as \<open>Save\<close> leaves it behind the
  caller's pointer.
\<close>

definition Save ::
  "('w, 'q) env \<Rightarrow> 'q \<Rightarrow> SessionState \<Rightarrow> 'w st \<Rightarrow> (error option \<times> SessionState) \<times> 'w st" where
  "Save m req s0 st0 =
     (let s = (if (case CreatedAt s0 of None \<Rightarrow> True | Some t \<Rightarrow> IsZero t)
               then s0\<lparr>CreatedAt := Some (time_Now m (fst st0))\<rparr>
               else s0)
      in case (case call DecodeTicket (decodeTicketFromRequest m req) st0 of
                 (Inr tckt, st1) \<Rightarrow> (Inr tckt, st1)
               | (Inl err, st1) \<Rightarrow>
                   (case call NewTicket (newTicket m) st1 of
                      (Inr tckt, st2) \<Rightarrow> (Inr tckt, st2)
                    | (Inl err', st2) \<Rightarrow>
                        (Inl (Errorf ''error creating a session ticket: '' err'), st2))) of
           (Inl err, st2) \<Rightarrow> ((Some err, s), st2)
         | (Inr tckt, st2) \<Rightarrow>
             (case returning (SaveSession tckt)
                     (saveSession m tckt s
                        (\<lambda>key val exp. call (StoreSave key val exp) (Store_Save m req key val exp)))
                     st2 of
                (Some err, st3) \<Rightarrow> ((Some err, s), st3)
              | (None, st3) \<Rightarrow>
                  (case call (SetCookie tckt) (setCookie m tckt req s) st3 of
                     (r, st4) \<Rightarrow> ((r, s), st4))))"

subsection \<open>Manager.Load\<close>

text \<open>\<open>Inl err\<close> is the pair \<open>(nil, err)\<close> of the source.\<close>

definition Load ::
  "('w, 'q) env \<Rightarrow> 'q \<Rightarrow> 'w st \<Rightarrow> (error + SessionState) \<times> 'w st" where
  "Load m req st0 =
     (case call DecodeTicket (decodeTicketFromRequest m req) st0 of
        (Inl err, st1) \<Rightarrow> (Inl err, st1)
      | (Inr tckt, st1) \<Rightarrow>
          returning (LoadSession tckt)
            (loadSession m tckt (\<lambda>key. call (StoreLoad key) (Store_Load m req key)))
            st1)"

subsection \<open>Manager.Clear\<close>

text \<open>
  When decoding fails (lines 73 to 87) the cookie is cleared through a ticket that
  holds the builder only: its id and secret are Go's zero values. Inside the
  \<open>if\<close> statement of line 79 \<open>err\<close> is the error of \<open>clearCookie\<close>; after it,
  on line 83, \<open>err\<close> is the decode error again. On line 89 the result of
  \<open>clearCookie\<close> is not bound to anything.
\<close>

definition Clear :: "('w, 'q) env \<Rightarrow> 'q \<Rightarrow> 'w st \<Rightarrow> error option \<times> 'w st" where
  "Clear m req st0 =
     (case call DecodeTicket (decodeTicketFromRequest m req) st0 of
        (Inl err, st1) \<Rightarrow>
          (let tckt = \<lparr>ticket_id = [], secret = []\<rparr>
           in case call (ClearCookie tckt) (clearCookie m tckt req) st1 of
                (Some cerr, st2) \<Rightarrow>
                  (Some (Errorf ''error creating cookie to clear session: '' cerr), st2)
              | (None, st2) \<Rightarrow>
                  if errors_Is err ErrNoCookie then (None, st2)
                  else (Some (Errorf ''error decoding ticket to clear session: '' err), st2))
      | (Inr tckt, st1) \<Rightarrow>
          (case call (ClearCookie tckt) (clearCookie m tckt req) st1 of
             (_, st2) \<Rightarrow>
               returning (ClearSession tckt)
                 (clearSession tckt (\<lambda>key. call (StoreClear key) (Store_Clear m req key)))
                 st2))"

subsection \<open>Reading a run\<close>

text \<open>The events that a run appended to the trace \<open>tr\<close> it started from.\<close>

definition new_events :: "event list \<Rightarrow> 'w st \<Rightarrow> event list" where
  "new_events tr st = drop (length tr) (snd st)"

fun is_StoreSave :: "event \<Rightarrow> bool" where
  "is_StoreSave (StoreSave key val exp r) = True"
| "is_StoreSave ev = False"

text \<open>
  \<open>ticket_found m req w t w1 evs\<close>: lines 38 to 44 of \<open>Save\<close>, started in the world
  \<open>w\<close>, end with the ticket \<open>t\<close> in the world \<open>w1\<close> after the calls \<open>evs\<close>: the
  ticket was decoded from the request, or decoding failed and the ticket was minted.
\<close>

definition ticket_found ::
  "('w, 'q) env \<Rightarrow> 'q \<Rightarrow> 'w \<Rightarrow> ticket \<Rightarrow> 'w \<Rightarrow> event list \<Rightarrow> bool" where
  "ticket_found m req w t w1 evs =
     (case decodeTicketFromRequest m req w of
        (Inr t', w0) \<Rightarrow> t' = t \<and> w0 = w1 \<and> evs = [DecodeTicket (Inr t)]
      | (Inl e, w0) \<Rightarrow>
          newTicket m w0 = (Inr t, w1) \<and> evs = [DecodeTicket (Inl e), NewTicket (Inr t)])"

subsection \<open>Test doubles\<close>

text \<open>
  An in-memory Store, a browser that holds at most one session cookie, and switches
  that make the random source, the Store or the cookie builder fail. A request is
  the cookie value it carries, if any. The theorems below hold for every
  collaborator; the doubles give them concrete runs.
\<close>

record world =
  w_clock :: Time
  w_store :: "string \<rightharpoonup> bytes"
  w_browser :: "string option"

record faults =
  bad_random :: bool
  bad_store :: bool
  bad_cookie :: bool

definition fake :: "faults \<Rightarrow> (world, string option) env" where
  "fake f =
     \<lparr> time_Now = w_clock,
       decodeTicketFromRequest = (\<lambda>req w.
         (case req of
            None \<Rightarrow> Inl ErrNoCookie
          | Some v \<Rightarrow> if v = ''garbage'' then Inl (ErrorString ''invalid ticket'')
                      else Inr \<lparr>ticket_id = v, secret = ''k''\<rparr>, w)),
       newTicket = (\<lambda>w.
         (if bad_random f then Inl (ErrorString ''no entropy'')
          else Inr \<lparr>ticket_id = ''t1'', secret = ''k''\<rparr>, w)),
       encodeSession = (\<lambda>t s w. (Inr (payload s), w)),
       decodeSession = (\<lambda>t b w. (Inr \<lparr>CreatedAt = None, payload = b\<rparr>, w)),
       expire = (\<lambda>s. 3600),
       setCookie = (\<lambda>t req s w.
         if bad_cookie f then (Some (ErrorString ''cookie builder failed''), w)
         else (None, w\<lparr>w_browser := Some (ticket_id t)\<rparr>)),
       clearCookie = (\<lambda>t req w.
         if bad_cookie f then (Some (ErrorString ''cookie builder failed''), w)
         else (None, w\<lparr>w_browser := None\<rparr>)),
       Store_Save = (\<lambda>ctx key val exp w.
         if bad_store f then (Some (ErrorString ''store unavailable''), w)
         else (None, w\<lparr>w_store := (w_store w)(key \<mapsto> val)\<rparr>)),
       Store_Load = (\<lambda>ctx key w.
         (case w_store w key of
            None \<Rightarrow> Inl (ErrorString ''not found'')
          | Some val \<Rightarrow> Inr val, w)),
       Store_Clear = (\<lambda>ctx key w.
         if bad_store f then (Some (ErrorString ''store unavailable''), w)
         else (None, w\<lparr>w_store := (w_store w)(key := None)\<rparr>)) \<rparr>"

definition no_faults :: faults where
  "no_faults = \<lparr>bad_random = False, bad_store = False, bad_cookie = False\<rparr>"

text \<open>A world with an empty Store and no cookie in the browser.\<close>

definition world0 :: world where
  "world0 = \<lparr>w_clock = \<lparr>sec = 63900000000, nsec = 5\<rparr>, w_store = Map.empty,
             w_browser = None\<rparr>"

text \<open>A minute later: the session \<open>t1\<close> is stored and the browser holds its cookie.\<close>

definition world1 :: world where
  "world1 = \<lparr>w_clock = \<lparr>sec = 63900000060, nsec = 0\<rparr>,
             w_store = [''t1'' \<mapsto> ''data''], w_browser = Some ''t1''\<rparr>"

definition fresh :: SessionState where
  "fresh = \<lparr>CreatedAt = None, payload = ''alice''\<rparr>"

section \<open>Properties of Save\<close>

text \<open>
  What \<open>Save\<close> leaves in \<open>CreatedAt\<close>, on every path, also when it returns an error:
  the stamp is taken before anything can fail.
\<close>

lemma Save_CreatedAt:
  "CreatedAt (snd (fst (Save m req s st))) =
     (case CreatedAt s of
        None \<Rightarrow> Some (time_Now m (fst st))
      | Some t \<Rightarrow> if IsZero t then Some (time_Now m (fst st)) else Some t)"
  by (simp add: Save_def Let_def split: prod.splits sum.splits option.splits)

text \<open>
  C1. Saving the same session twice stamps \<open>CreatedAt\<close> on the first call only. The
  first \<open>Save\<close> runs on any session \<open>s\<close> at a moment when the clock does not read the
  zero instant of \<open>time.Time\<close>; the second \<open>Save\<close> takes the session as the first
  left it, on any request and in any later state of the world, and leaves its
  \<open>CreatedAt\<close> as it was.
\<close>

theorem Save_twice_preserves_CreatedAt:
  assumes "\<not> IsZero (time_Now m w)"
  shows "CreatedAt (snd (fst (Save m req2 (snd (fst (Save m req1 s (w, tr)))) st2))) =
         CreatedAt (snd (fst (Save m req1 s (w, tr))))"
  using assms by (simp add: Save_CreatedAt split: option.splits)

theorem Save_twice_preserves_CreatedAt_witness:
  "\<not> IsZero (time_Now (fake no_faults) world0) \<and>
   CreatedAt (snd (fst (Save (fake no_faults) None fresh (world0, [])))) =
     Some \<lparr>sec = 63900000000, nsec = 5\<rparr> \<and>
   CreatedAt (snd (fst (Save (fake no_faults) (Some ''t1'')
       (snd (fst (Save (fake no_faults) None fresh (world0, [])))) (world1, [])))) =
     Some \<lparr>sec = 63900000000, nsec = 5\<rparr>"
proof -
  have clock: "\<not> IsZero (time_Now (fake no_faults) world0)"
    by (simp add: fake_def world0_def IsZero_def)
  have first: "CreatedAt (snd (fst (Save (fake no_faults) None fresh (world0, [])))) =
      Some \<lparr>sec = 63900000000, nsec = 5\<rparr>"
    by (simp add: Save_CreatedAt fresh_def fake_def world0_def)
  from Save_twice_preserves_CreatedAt [OF clock, of "Some ''t1''" None fresh "[]" "(world1, [])"]
  show ?thesis using clock first by simp
qed

text \<open>
  C10. A \<open>CreatedAt\<close> that is not \<open>nil\<close> but points at the zero time is stamped with
  the current time, as a \<open>nil\<close> one is; a \<open>CreatedAt\<close> that points at any other time
  is kept.
\<close>

theorem Save_zero_CreatedAt_restamped:
  assumes "CreatedAt s = Some t"
  shows "CreatedAt (snd (fst (Save m req s (w, tr)))) =
         (if IsZero t then Some (time_Now m w) else Some t)"
  using assms by (simp add: Save_CreatedAt)

theorem Save_zero_CreatedAt_restamped_witness:
  "CreatedAt (fresh\<lparr>CreatedAt := Some \<lparr>sec = 0, nsec = 0\<rparr>\<rparr>) = Some \<lparr>sec = 0, nsec = 0\<rparr> \<and>
   CreatedAt (snd (fst (Save (fake no_faults) None
       (fresh\<lparr>CreatedAt := Some \<lparr>sec = 0, nsec = 0\<rparr>\<rparr>) (world0, [])))) =
     Some \<lparr>sec = 63900000000, nsec = 5\<rparr>"
proof -
  have stamped: "CreatedAt (fresh\<lparr>CreatedAt := Some \<lparr>sec = 0, nsec = 0\<rparr>\<rparr>) =
      Some \<lparr>sec = 0, nsec = 0\<rparr>"
    by simp
  from Save_zero_CreatedAt_restamped [OF stamped, of "fake no_faults" None world0 "[]"]
  show ?thesis using stamped by (simp add: IsZero_def fake_def world0_def)
qed

subsection \<open>The paths of Save\<close>

text \<open>
  Every run of \<open>Save\<close> is one of four: no ticket could be minted; the session could
  not be encoded; the Store refused the write; the session was stored and the cookie
  written, with whatever result the cookie write had.
\<close>

lemma Save_cases [consumes 1, case_names mint_failed encode_failed store_failed stored]:
  assumes "Save m req s (w, tr) = ((res, s'), (w', tr'))"
  obtains
    (mint_failed) e w0 e' where
      "decodeTicketFromRequest m req w = (Inl e, w0)"
      "newTicket m w0 = (Inl e', w')"
      "tr' = tr @ [DecodeTicket (Inl e), NewTicket (Inl e')]"
      "res = Some (Errorf ''error creating a session ticket: '' e')"
  | (encode_failed) t w1 evs err where
      "ticket_found m req w t w1 evs"
      "tr' = tr @ evs @ [SaveSession t (Some err)]"
      "res = Some err"
  | (store_failed) t w1 evs key val exp err where
      "ticket_found m req w t w1 evs"
      "tr' = tr @ evs @ [StoreSave key val exp (Some err), SaveSession t (Some err)]"
      "res = Some err"
  | (stored) t w1 evs key val exp where
      "ticket_found m req w t w1 evs"
      "tr' = tr @ evs @ [StoreSave key val exp None, SaveSession t None, SetCookie t res]"
  using assms
  by (auto simp: Save_def Let_def call_def returning_def saveSession_def ticket_found_def
           split: prod.splits sum.splits option.splits)

lemma ticket_found_events:
  assumes "ticket_found m req w t w1 evs"
  shows "(\<forall>t' r. SaveSession t' r \<notin> set evs) \<and> (\<forall>t' r. SetCookie t' r \<notin> set evs) \<and>
         (\<forall>key val exp r. StoreSave key val exp r \<notin> set evs) \<and> filter is_StoreSave evs = []"
  using assms by (auto simp: ticket_found_def split: prod.splits sum.splits)


lemma Save_run_first_visit:
  "fst (fst (Save (fake no_faults) None fresh (world0, []))) = None \<and>
   new_events [] (snd (Save (fake no_faults) None fresh (world0, []))) =
     [DecodeTicket (Inl ErrNoCookie),
      NewTicket (Inr \<lparr>ticket_id = ''t1'', secret = ''k''\<rparr>),
      StoreSave ''t1'' ''alice'' 3600 None,
      SaveSession \<lparr>ticket_id = ''t1'', secret = ''k''\<rparr> None,
      SetCookie \<lparr>ticket_id = ''t1'', secret = ''k''\<rparr> None]"
  by (simp add: Save_def Let_def call_def returning_def saveSession_def new_events_def
        fake_def no_faults_def fresh_def)



text \<open>
  C8. Modelled from the spec for \<open>ticket.saveSession\<close>. Let \<open>Save\<close> have its
  ticket \<open>t\<close>, decoded or minted, and let the session, stamped as lines 33 to 36
  leave it, encode to \<open>val\<close>. Whatever error \<open>err\<close> the Store's \<open>Save\<close> returns
  for the ticket's id, \<open>val\<close> and the session's TTL, \<open>Manager.Save\<close> returns
  \<open>err\<close>, the same value with nothing wrapped around it. The Store's \<open>Save\<close> is
  called once in that run, so the write is not tried again, and the run ends in the
  world that the Store left.
\<close>

theorem Save_store_error_verbatim:
  assumes "ticket_found m req w t w1 evs"
    and "s' = (if (case CreatedAt s of None \<Rightarrow> True | Some c \<Rightarrow> IsZero c)
               then s\<lparr>CreatedAt := Some (time_Now m w)\<rparr> else s)"
    and "encodeSession m t s' w1 = (Inr val, w2)"
    and "Store_Save m req (ticket_id t) val (expire m s') w2 = (Some err, w3)"
  shows "Save m req s (w, tr) =
           ((Some err, s'),
            (w3, tr @ evs @ [StoreSave (ticket_id t) val (expire m s') (Some err),
                             SaveSession t (Some err)])) \<and>
         length (filter is_StoreSave (new_events tr (snd (Save m req s (w, tr))))) = 1"
proof -
  have run: "Save m req s (w, tr) =
      ((Some err, s'),
       (w3, tr @ evs @ [StoreSave (ticket_id t) val (expire m s') (Some err),
                        SaveSession t (Some err)]))"
    using assms(1,3,4) unfolding Save_def Let_def fst_conv assms(2) [symmetric]
    by (auto simp: call_def returning_def saveSession_def ticket_found_def
             split: prod.splits sum.splits)
  have "filter is_StoreSave evs = []"
    using ticket_found_events [OF assms(1)] by simp
  with run show ?thesis by (simp add: new_events_def)
qed

theorem Save_store_error_verbatim_witness:
  "ticket_found (fake (no_faults\<lparr>bad_store := True\<rparr>)) (Some ''t1'') world1
     \<lparr>ticket_id = ''t1'', secret = ''k''\<rparr> world1
     [DecodeTicket (Inr \<lparr>ticket_id = ''t1'', secret = ''k''\<rparr>)] \<and>
   encodeSession (fake (no_faults\<lparr>bad_store := True\<rparr>)) \<lparr>ticket_id = ''t1'', secret = ''k''\<rparr>
     (fresh\<lparr>CreatedAt := Some \<lparr>sec = 63900000060, nsec = 0\<rparr>\<rparr>) world1 =
     (Inr ''alice'', world1) \<and>
   Store_Save (fake (no_faults\<lparr>bad_store := True\<rparr>)) (Some ''t1'') ''t1'' ''alice'' 3600 world1 =
     (Some (ErrorString ''store unavailable''), world1) \<and>
   Save (fake (no_faults\<lparr>bad_store := True\<rparr>)) (Some ''t1'') fresh (world1, []) =
     ((Some (ErrorString ''store unavailable''),
       fresh\<lparr>CreatedAt := Some \<lparr>sec = 63900000060, nsec = 0\<rparr>\<rparr>),
      (world1,
       [DecodeTicket (Inr \<lparr>ticket_id = ''t1'', secret = ''k''\<rparr>),
        StoreSave ''t1'' ''alice'' 3600 (Some (ErrorString ''store unavailable'')),
        SaveSession \<lparr>ticket_id = ''t1'', secret = ''k''\<rparr>
          (Some (ErrorString ''store unavailable''))])) \<and>
   length (filter is_StoreSave (new_events []
     (snd (Save (fake (no_faults\<lparr>bad_store := True\<rparr>)) (Some ''t1'') fresh (world1, []))))) = 1"
proof -
  have found: "ticket_found (fake (no_faults\<lparr>bad_store := True\<rparr>)) (Some ''t1'') world1
      \<lparr>ticket_id = ''t1'', secret = ''k''\<rparr> world1
      [DecodeTicket (Inr \<lparr>ticket_id = ''t1'', secret = ''k''\<rparr>)]"
    by (simp add: ticket_found_def fake_def)
  have stamped: "fresh\<lparr>CreatedAt := Some \<lparr>sec = 63900000060, nsec = 0\<rparr>\<rparr> =
      (if (case CreatedAt fresh of None \<Rightarrow> True | Some c \<Rightarrow> IsZero c)
       then fresh\<lparr>CreatedAt := Some (time_Now (fake (no_faults\<lparr>bad_store := True\<rparr>)) world1)\<rparr>
       else fresh)"
    by (simp add: fresh_def fake_def world1_def)
  have encoded: "encodeSession (fake (no_faults\<lparr>bad_store := True\<rparr>))
      \<lparr>ticket_id = ''t1'', secret = ''k''\<rparr>
      (fresh\<lparr>CreatedAt := Some \<lparr>sec = 63900000060, nsec = 0\<rparr>\<rparr>) world1 =
      (Inr ''alice'', world1)"
    by (simp add: fake_def fresh_def)
  have refused: "Store_Save (fake (no_faults\<lparr>bad_store := True\<rparr>)) (Some ''t1'')
      (ticket_id \<lparr>ticket_id = ''t1'', secret = ''k''\<rparr>) ''alice''
      (expire (fake (no_faults\<lparr>bad_store := True\<rparr>))
         (fresh\<lparr>CreatedAt := Some \<lparr>sec = 63900000060, nsec = 0\<rparr>\<rparr>)) world1 =
      (Some (ErrorString ''store unavailable''), world1)"
    by (simp add: fake_def no_faults_def)
  have ttl: "expire (fake (no_faults\<lparr>bad_store := True\<rparr>))
      (fresh\<lparr>CreatedAt := Some \<lparr>sec = 63900000060, nsec = 0\<rparr>\<rparr>) = 3600"
    by (simp add: fake_def)
  from Save_store_error_verbatim [OF found stamped encoded refused, of "[]"]
  show ?thesis using found encoded refused ttl by (simp add: new_events_def)
qed

text \<open>
  C3. When decoding the ticket of the request fails, \<open>Save\<close> calls \<open>newTicket\<close> next.
  If that fails, \<open>Save\<close> returns the error of \<open>newTicket\<close> with context and calls
  nothing else. If it gives a ticket, \<open>Save\<close> goes on to \<open>saveSession\<close> under that
  ticket, and what \<open>Save\<close> returns is the error of \<open>saveSession\<close>, or else the result
  of \<open>setCookie\<close>: the decode error is not returned.
\<close>

theorem Save_decode_failure_mints_ticket:
  assumes "decodeTicketFromRequest m req w = (Inl e, w1)"
  shows "take 2 (new_events tr (snd (Save m req s (w, tr)))) =
           [DecodeTicket (Inl e), NewTicket (fst (newTicket m w1))] \<and>
         (case fst (newTicket m w1) of
            Inl e' \<Rightarrow>
              fst (fst (Save m req s (w, tr))) =
                Some (Errorf ''error creating a session ticket: '' e') \<and>
              new_events tr (snd (Save m req s (w, tr))) =
                [DecodeTicket (Inl e), NewTicket (Inl e')]
          | Inr t \<Rightarrow>
              (\<exists>r. SaveSession t r \<in> set (new_events tr (snd (Save m req s (w, tr)))) \<and>
                 (case r of
                    Some err \<Rightarrow> fst (fst (Save m req s (w, tr))) = Some err
                  | None \<Rightarrow>
                      SetCookie t (fst (fst (Save m req s (w, tr))))
                        \<in> set (new_events tr (snd (Save m req s (w, tr)))))))"
proof -
  obtain res s' w' tr' where run: "Save m req s (w, tr) = ((res, s'), (w', tr'))"
    by (metis prod.exhaust)
  from run have
    "take 2 (drop (length tr) tr') = [DecodeTicket (Inl e), NewTicket (fst (newTicket m w1))] \<and>
     (case fst (newTicket m w1) of
        Inl e' \<Rightarrow>
          res = Some (Errorf ''error creating a session ticket: '' e') \<and>
          drop (length tr) tr' = [DecodeTicket (Inl e), NewTicket (Inl e')]
      | Inr t \<Rightarrow>
          (\<exists>r. SaveSession t r \<in> set (drop (length tr) tr') \<and>
             (case r of Some err \<Rightarrow> res = Some err
              | None \<Rightarrow> SetCookie t res \<in> set (drop (length tr) tr'))))"
  proof (cases rule: Save_cases)
    case (mint_failed e0 w0 e')
    with assms show ?thesis by simp
  next
    case (encode_failed t1 w2 evs err1)
    with assms show ?thesis by (auto simp: ticket_found_def split: prod.splits sum.splits)
  next
    case (store_failed t1 w2 evs key1 val1 exp1 err1)
    with assms show ?thesis by (auto simp: ticket_found_def split: prod.splits sum.splits)
  next
    case (stored t1 w2 evs key1 val1 exp1)
    with assms show ?thesis by (auto simp: ticket_found_def split: prod.splits sum.splits)
  qed
  then show ?thesis unfolding new_events_def run fst_conv snd_conv by simp
qed

theorem Save_decode_failure_mints_ticket_witness:
  "decodeTicketFromRequest (fake no_faults) None world0 = (Inl ErrNoCookie, world0) \<and>
   take 2 (new_events [] (snd (Save (fake no_faults) None fresh (world0, [])))) =
     [DecodeTicket (Inl ErrNoCookie), NewTicket (Inr \<lparr>ticket_id = ''t1'', secret = ''k''\<rparr>)] \<and>
   (\<exists>r. SaveSession \<lparr>ticket_id = ''t1'', secret = ''k''\<rparr> r
           \<in> set (new_events [] (snd (Save (fake no_faults) None fresh (world0, []))))) \<and>
   fst (fst (Save (fake no_faults) None fresh (world0, []))) = None"
proof -
  have d: "decodeTicketFromRequest (fake no_faults) None world0 = (Inl ErrNoCookie, world0)"
    by (simp add: fake_def)
  have n: "fst (newTicket (fake no_faults) world0) = Inr \<lparr>ticket_id = ''t1'', secret = ''k''\<rparr>"
    by (simp add: fake_def no_faults_def)
  from Save_decode_failure_mints_ticket [OF d, of "[]" fresh] show ?thesis
    using d n by (auto simp: Save_run_first_visit)
qed

section \<open>Properties of Load\<close>

text \<open>
  C4. When decoding the ticket of the request fails, \<open>Load\<close> returns the decode
  error, the same value, and no session; decoding is the only call of the run, so the
  Store's \<open>Load\<close> is not called.
\<close>

theorem Load_decode_failure:
  assumes "decodeTicketFromRequest m req w = (Inl e, w1)"
  shows "Load m req (w, tr) = (Inl e, (w1, tr @ [DecodeTicket (Inl e)])) \<and>
         (\<forall>key r. StoreLoad key r \<notin> set (new_events tr (snd (Load m req (w, tr)))))"
  using assms
  by (simp add: Load_def call_def new_events_def)

theorem Load_decode_failure_witness:
  "decodeTicketFromRequest (fake no_faults) None world1 = (Inl ErrNoCookie, world1) \<and>
   Load (fake no_faults) None (world1, []) =
     (Inl ErrNoCookie, (world1, [DecodeTicket (Inl ErrNoCookie)])) \<and>
   (\<forall>key r. StoreLoad key r
      \<notin> set (new_events [] (snd (Load (fake no_faults) None (world1, [])))))"
proof -
  have d: "decodeTicketFromRequest (fake no_faults) None world1 = (Inl ErrNoCookie, world1)"
    by (simp add: fake_def)
  from Load_decode_failure [OF d, of "[]"] d show ?thesis
    by (simp add: new_events_def)
qed

section \<open>Properties of Clear\<close>

subsection \<open>The two paths of Clear\<close>

text \<open>
  When decoding fails, \<open>Clear\<close> calls \<open>clearCookie\<close> once, on the ticket that holds
  the builder only, and nothing else. A failure of that call is returned with
  context; otherwise the decode error is returned with context, unless it is the
  absence of a cookie.
\<close>

lemma Clear_decode_failed:
  assumes "decodeTicketFromRequest m req w = (Inl e, w1)"
  shows "new_events tr (snd (Clear m req (w, tr))) =
           [DecodeTicket (Inl e),
            ClearCookie \<lparr>ticket_id = [], secret = []\<rparr>
              (fst (clearCookie m \<lparr>ticket_id = [], secret = []\<rparr> req w1))] \<and>
         fst (Clear m req (w, tr)) =
           (case fst (clearCookie m \<lparr>ticket_id = [], secret = []\<rparr> req w1) of
              Some cerr \<Rightarrow> Some (Errorf ''error creating cookie to clear session: '' cerr)
            | None \<Rightarrow>
                if errors_Is e ErrNoCookie then None
                else Some (Errorf ''error decoding ticket to clear session: '' e))"
  using assms
  by (simp add: Clear_def Let_def call_def new_events_def split: prod.splits option.splits)

text \<open>
  When decoding succeeds, \<open>Clear\<close> calls \<open>clearCookie\<close> and then the Store's
  \<open>Clear\<close> on the ticket's id, in that order, and returns what the Store returned.
  The result of \<open>clearCookie\<close> is in the trace and nowhere in the result.
\<close>

lemma Clear_decoded:
  assumes "decodeTicketFromRequest m req w = (Inr t, w1)"
  shows "new_events tr (snd (Clear m req (w, tr))) =
           [DecodeTicket (Inr t),
            ClearCookie t (fst (clearCookie m t req w1)),
            StoreClear (ticket_id t)
              (fst (Store_Clear m req (ticket_id t) (snd (clearCookie m t req w1)))),
            ClearSession t
              (fst (Store_Clear m req (ticket_id t) (snd (clearCookie m t req w1))))] \<and>
         fst (Clear m req (w, tr)) =
           fst (Store_Clear m req (ticket_id t) (snd (clearCookie m t req w1)))"
  using assms
  by (simp add: Clear_def call_def returning_def clearSession_def new_events_def
           split: prod.splits)

subsection \<open>A request without a cookie\<close>

text \<open>
  C5, as the claim states it, fails: on a request without a cookie \<open>Clear\<close> still
  returns an error when the cookie-clear itself fails, because line 79 tests the
  result of \<open>clearCookie\<close> before line 83 looks at the decode error. Here the
  request carries no cookie and the cookie builder fails.
\<close>

theorem Clear_no_cookie_counterexample:
  "decodeTicketFromRequest (fake (no_faults\<lparr>bad_cookie := True\<rparr>)) None world0 =
     (Inl ErrNoCookie, world0) \<and>
   errors_Is ErrNoCookie ErrNoCookie \<and>
   fst (Clear (fake (no_faults\<lparr>bad_cookie := True\<rparr>)) None (world0, [])) =
     Some (ErrorString ''error creating cookie to clear session: cookie builder failed'')"
  by (simp add: Clear_def Let_def call_def fake_def no_faults_def Errorf_def)

text \<open>
  C5, amended. On a request without a cookie (decoding fails with an error that is
  \<open>http.ErrNoCookie\<close>), \<open>Clear\<close> calls \<open>clearCookie\<close> exactly once and calls
  nothing else after decoding; it returns no error when that call succeeds, and the
  error of that call, with context, when it fails.
\<close>

theorem Clear_no_cookie:
  assumes "decodeTicketFromRequest m req w = (Inl e, w1)"
    and "errors_Is e ErrNoCookie"
  shows "new_events tr (snd (Clear m req (w, tr))) =
           [DecodeTicket (Inl e),
            ClearCookie \<lparr>ticket_id = [], secret = []\<rparr>
              (fst (clearCookie m \<lparr>ticket_id = [], secret = []\<rparr> req w1))] \<and>
         fst (Clear m req (w, tr)) =
           (case fst (clearCookie m \<lparr>ticket_id = [], secret = []\<rparr> req w1) of
              None \<Rightarrow> None
            | Some cerr \<Rightarrow> Some (Errorf ''error creating cookie to clear session: '' cerr))"
  using Clear_decode_failed [OF assms(1), of tr] assms(2)
  by (simp split: option.splits)

theorem Clear_no_cookie_witness:
  "decodeTicketFromRequest (fake no_faults) None world1 = (Inl ErrNoCookie, world1) \<and>
   errors_Is ErrNoCookie ErrNoCookie \<and>
   new_events [] (snd (Clear (fake no_faults) None (world1, []))) =
     [DecodeTicket (Inl ErrNoCookie), ClearCookie \<lparr>ticket_id = [], secret = []\<rparr> None] \<and>
   fst (Clear (fake no_faults) None (world1, [])) = None"
proof -
  have d: "decodeTicketFromRequest (fake no_faults) None world1 = (Inl ErrNoCookie, world1)"
    by (simp add: fake_def)
  have n: "errors_Is ErrNoCookie ErrNoCookie"
    by simp
  have c: "fst (clearCookie (fake no_faults) \<lparr>ticket_id = [], secret = []\<rparr> None world1) = None"
    by (simp add: fake_def no_faults_def)
  from Clear_no_cookie [OF d n, of "[]"] show ?thesis
    using d n c by simp
qed

subsection \<open>A request with a cookie that does not decode\<close>

text \<open>
  C6. When decoding fails with an error that is not \<open>http.ErrNoCookie\<close>, \<open>Clear\<close>
  still calls \<open>clearCookie\<close>, once, and does not call the Store. If that call
  succeeds, \<open>Clear\<close> returns the decode error with the context
  \<open>error decoding ticket to clear session\<close>; if it fails, \<open>Clear\<close> returns the
  error of that call instead, with the context
  \<open>error creating cookie to clear session\<close>.
\<close>

theorem Clear_invalid_cookie:
  assumes "decodeTicketFromRequest m req w = (Inl e, w1)"
    and "\<not> errors_Is e ErrNoCookie"
  shows "new_events tr (snd (Clear m req (w, tr))) =
           [DecodeTicket (Inl e),
            ClearCookie \<lparr>ticket_id = [], secret = []\<rparr>
              (fst (clearCookie m \<lparr>ticket_id = [], secret = []\<rparr> req w1))] \<and>
         fst (Clear m req (w, tr)) =
           (case fst (clearCookie m \<lparr>ticket_id = [], secret = []\<rparr> req w1) of
              None \<Rightarrow> Some (Errorf ''error decoding ticket to clear session: '' e)
            | Some cerr \<Rightarrow> Some (Errorf ''error creating cookie to clear session: '' cerr))"
  using Clear_decode_failed [OF assms(1), of tr] assms(2)
  by (simp split: option.splits)

theorem Clear_invalid_cookie_witness:
  "decodeTicketFromRequest (fake no_faults) (Some ''garbage'') world1 =
     (Inl (ErrorString ''invalid ticket''), world1) \<and>
   \<not> errors_Is (ErrorString ''invalid ticket'') ErrNoCookie \<and>
   new_events [] (snd (Clear (fake no_faults) (Some ''garbage'') (world1, []))) =
     [DecodeTicket (Inl (ErrorString ''invalid ticket'')),
      ClearCookie \<lparr>ticket_id = [], secret = []\<rparr> None] \<and>
   fst (Clear (fake no_faults) (Some ''garbage'') (world1, [])) =
     Some (ErrorString ''error decoding ticket to clear session: invalid ticket'')"
proof -
  have d: "decodeTicketFromRequest (fake no_faults) (Some ''garbage'') world1 =
      (Inl (ErrorString ''invalid ticket''), world1)"
    by (simp add: fake_def)
  have n: "\<not> errors_Is (ErrorString ''invalid ticket'') ErrNoCookie"
    by simp
  have c: "fst (clearCookie (fake no_faults) \<lparr>ticket_id = [], secret = []\<rparr>
      (Some ''garbage'') world1) = None"
    by (simp add: fake_def no_faults_def)
  from Clear_invalid_cookie [OF d n, of "[]"] show ?thesis
    using d n c by (simp add: Errorf_def)
qed

subsection \<open>A request with a cookie that decodes\<close>

text \<open>
  C7 asks that a failure of the cookie-clear is propagated when the ticket decodes.
  Line 89 calls \<open>clearCookie\<close> and drops its result, where line 79 tests it. Here
  the request carries the cookie of the stored session \<open>t1\<close> and the cookie builder
  fails: \<open>clearCookie\<close> returns an error, the Store entry is deleted, and \<open>Clear\<close>
  returns no error.
\<close>

theorem Clear_drops_cookie_clear_error:
  "new_events []
     (snd (Clear (fake (no_faults\<lparr>bad_cookie := True\<rparr>)) (Some ''t1'') (world1, []))) =
     [DecodeTicket (Inr \<lparr>ticket_id = ''t1'', secret = ''k''\<rparr>),
      ClearCookie \<lparr>ticket_id = ''t1'', secret = ''k''\<rparr>
        (Some (ErrorString ''cookie builder failed'')),
      StoreClear ''t1'' None,
      ClearSession \<lparr>ticket_id = ''t1'', secret = ''k''\<rparr> None] \<and>
   fst (Clear (fake (no_faults\<lparr>bad_cookie := True\<rparr>)) (Some ''t1'') (world1, [])) = None"
  by (simp add: Clear_def call_def returning_def clearSession_def new_events_def
        fake_def no_faults_def)

text \<open>
  C9 asks that \<open>Clear\<close> never leaves the browser with a valid cookie for a Store
  entry that is gone. The cookie-clear is issued before the deletion
  (\<open>Clear_decoded\<close>), and the result of the deletion is returned, but the deletion
  goes ahead when the cookie-clear has failed. Here the browser holds the cookie of
  the stored session \<open>t1\<close> and sends it, and the cookie builder fails: after
  \<open>Clear\<close> the browser still holds the cookie, the Store has no entry for \<open>t1\<close>,
  and \<open>Clear\<close> has returned no error.
\<close>

theorem Clear_leaves_cookie_of_deleted_entry:
  "w_browser world1 = Some ''t1'' \<and> w_store world1 ''t1'' = Some ''data'' \<and>
   fst (Clear (fake (no_faults\<lparr>bad_cookie := True\<rparr>)) (w_browser world1) (world1, [])) = None \<and>
   w_browser (fst (snd
     (Clear (fake (no_faults\<lparr>bad_cookie := True\<rparr>)) (w_browser world1) (world1, [])))) =
     Some ''t1'' \<and>
   w_store (fst (snd
     (Clear (fake (no_faults\<lparr>bad_cookie := True\<rparr>)) (w_browser world1) (world1, [])))) ''t1'' =
     None"
  by (simp add: Clear_def call_def returning_def clearSession_def
        fake_def no_faults_def world1_def)

end
